theory Spec2Isabelle
  imports Main "HOL-Library.Word"
begin

unbundle bit_operations_syntax

section \<open>Runtime types, as proto.go reads them through package reflect\<close>

text \<open>
  proto.go never looks inside a value: it asks the value's runtime type for its
  \<open>Kind\<close>, its element type (\<open>Elem\<close>), its number of fields and the type of a field,
  and it compares types for identity (the keys of the two maps). A type is modelled by
  its shape. Arrays and structs hold their components by value, so these are subterms;
  pointers, slices, maps and channels may refer back to the type that holds them
  (\<open>type Node struct { Next *Node }\<close>), so they name their element type by its index
  in a type table.
\<close>

type_synonym byte = "8 word"
type_synonym tid = nat
type_synonym addr = nat

datatype kind =
    Invalid | Bool | Int' | Int8 | Int16 | Int32 | Int64
  | Uint | Uint8 | Uint16 | Uint32 | Uint64 | Uintptr
  | Float32 | Float64 | Complex64 | Complex128
  | Array | Chan | Func | Interface | Map | Ptr | Slice | String | Struct
  | UnsafePointer

datatype rtype =
    TBool | TInt | TInt8 | TInt16 | TInt32 | TInt64
  | TUint | TUint8 | TUint16 | TUint32 | TUint64 | TUintptr
  | TFloat32 | TFloat64 | TComplex64 | TComplex128
  | TString | TUnsafePointer
  | TArray nat rtype
  | TChan tid
  | TFunc string
  | TInterface string
  | TMap tid tid
  | TPtr tid
  | TSlice tid
  | TStruct string "(string \<times> rtype) list"

text \<open>The type table: what an index stands for.\<close>

type_synonym types = "tid \<Rightarrow> rtype"

text \<open>A \<open>reflect.Type\<close> is an interface value: \<open>None\<close> is the nil interface.\<close>

type_synonym Type = "rtype option"

fun Kind :: "rtype \<Rightarrow> kind" where
  "Kind TBool = Bool"
| "Kind TInt = Int'"
| "Kind TInt8 = Int8"
| "Kind TInt16 = Int16"
| "Kind TInt32 = Int32"
| "Kind TInt64 = Int64"
| "Kind TUint = Uint"
| "Kind TUint8 = Uint8"
| "Kind TUint16 = Uint16"
| "Kind TUint32 = Uint32"
| "Kind TUint64 = Uint64"
| "Kind TUintptr = Uintptr"
| "Kind TFloat32 = Float32"
| "Kind TFloat64 = Float64"
| "Kind TComplex64 = Complex64"
| "Kind TComplex128 = Complex128"
| "Kind TString = String"
| "Kind TUnsafePointer = UnsafePointer"
| "Kind (TArray n e) = Array"
| "Kind (TChan e) = Chan"
| "Kind (TFunc s) = Func"
| "Kind (TInterface s) = Interface"
| "Kind (TMap k e) = Map"
| "Kind (TPtr e) = Ptr"
| "Kind (TSlice e) = Slice"
| "Kind (TStruct s fs) = Struct"

fun NumField :: "rtype \<Rightarrow> nat" where
  "NumField (TStruct s fs) = length fs"
| "NumField t = 0"

fun FieldType :: "rtype \<Rightarrow> nat \<Rightarrow> rtype" where
  "FieldType (TStruct s fs) i = snd (fs ! i)"
| "FieldType t i = t"

text \<open>
  What stops the program without a result. \<open>reflect\<close>'s \<open>Elem\<close> panics unless the
  kind is Array, Chan, Map, Ptr or Slice; a method call on a nil interface and a call
  through a nil \<open>*codec\<close> are nil dereferences; \<open>make\<close> panics on a length out of
  range.
\<close>

datatype panic =
    UnsupportedType rtype
  | ElemOfInvalidType rtype
  | NilDereference
  | MakesliceLenOutOfRange

fun Elem :: "types \<Rightarrow> rtype \<Rightarrow> panic + rtype" where
  "Elem tt (TArray n e) = Inr e"
| "Elem tt (TChan e) = Inr (tt e)"
| "Elem tt (TMap k e) = Inr (tt e)"
| "Elem tt (TPtr e) = Inr (tt e)"
| "Elem tt (TSlice e) = Inr (tt e)"
| "Elem tt t = Inl (ElemOfInvalidType t)"

section \<open>proto.go\<close>

subsection \<open>Results\<close>

text \<open>
  A call returns a value and the state it leaves, or panics. \<open>Unfinished\<close> is the
  third case, of a call that has not returned: proto.go has no loop of its own that
  could run forever, but it calls the three codec builders of the package, which call
  \<open>codecOf\<close> back.
\<close>

datatype ('a, 's) outcome = Return 'a 's | Panic panic | Unfinished

text \<open>
  Go errors: the error a codec function returns (proto.go passes it on or wraps it), and
  the three errors proto.go makes with \<open>fmt.Errorf\<close>.
\<close>

datatype error =
    CodecError string
  | MarshalError Type error
  | MarshalToError error
  | UnmarshalShortRead Type int nat

subsection \<open>flags\<close>

type_synonym flags = "64 word"

definition noflags :: flags where
  "noflags = 0"

definition inline :: flags where
  "inline = push_bit 0 1"

definition wantzero :: flags where
  "wantzero = push_bit 1 1"

definition flags_has :: "flags \<Rightarrow> flags \<Rightarrow> bool" where
  "flags_has f x = ((f AND x) \<noteq> 0)"

definition flags_with :: "flags \<Rightarrow> flags \<Rightarrow> flags" where
  "flags_with f x = (f OR x)"

definition flags_without :: "flags \<Rightarrow> flags \<Rightarrow> flags" where
  "flags_without f x = (f AND NOT x)"

subsection \<open>iface, inspect, pointer\<close>

text \<open>
  An \<open>interface{}\<close> value is two words: its dynamic type and its data word.
  \<open>inspect\<close> returns both; \<open>pointer\<close> returns the data word.
\<close>

record iface =
  typ' :: Type
  ptr' :: addr

definition pointer :: "iface \<Rightarrow> addr" where
  "pointer v = ptr' v"

definition inspect :: "iface \<Rightarrow> Type \<times> addr" where
  "inspect v = (typ' v, pointer v)"

subsection \<open>inlined\<close>

text \<open>
  \<open>inlined\<close> is called on the type of a value (never on the nil interface). The
  struct case is \<open>t.NumField() == 1 && inlined(t.Field(0).Type)\<close>.
\<close>

fun inlined :: "rtype \<Rightarrow> bool" where
  "inlined (TPtr e) = True"
| "inlined (TMap k e) = True"
| "inlined (TStruct s [f]) = inlined (snd f)"
| "inlined t = False"

subsection \<open>wireType\<close>

type_synonym wireType = int

definition varint :: wireType where
  "varint = 0"

definition fixed64 :: wireType where
  "fixed64 = 1"

definition varlen :: wireType where
  "varlen = 2"

definition fixed32 :: wireType where
  "fixed32 = 5"

definition wireType_String :: "wireType \<Rightarrow> string" where
  "wireType_String wt =
     (if wt = varint then ''varint''
      else if wt = varlen then ''varlen''
      else if wt = fixed32 then ''fixed32''
      else if wt = fixed64 then ''fixed64''
      else ''unknown'')"

subsection \<open>codec\<close>

text \<open>
  The struct \<open>codec\<close>: a wire type and three functions. The functions take the raw
  address of the value and the flags; here they also take the program state \<open>'s\<close> they
  read the value from. \<open>encode\<close> gets the buffer and returns the bytes it stored at the
  buffer's start, with its count and error; \<open>decode\<close> returns its count and error and
  the state it leaves.
\<close>

record 's codec =
  wire :: wireType
  size_fn :: "addr \<Rightarrow> flags \<Rightarrow> 's \<Rightarrow> int"
  encode_fn :: "byte list \<Rightarrow> addr \<Rightarrow> flags \<Rightarrow> 's \<Rightarrow> byte list \<times> int \<times> error option"
  decode_fn :: "byte list \<Rightarrow> addr \<Rightarrow> flags \<Rightarrow> 's \<Rightarrow> (int \<times> error option) \<times> 's"

text \<open>
  A callee cannot change the length of its caller's slice: whatever \<open>encode\<close> stores,
  the buffer keeps its length.
\<close>

definition write_into :: "byte list \<Rightarrow> byte list \<Rightarrow> byte list" where
  "write_into b ws = take (length b) ws @ drop (length ws) b"

subsection \<open>The codec cache\<close>

text \<open>
  A Go map from keys to \<open>*codec\<close>: a key is absent, or present with a pointer that
  may be nil (\<open>None\<close>). Reading gives nil for an absent key. \<open>'c\<close> is the type of
  non-nil \<open>*codec\<close> pointers.
\<close>

type_synonym 'c registry = "Type \<rightharpoonup> 'c option"

definition lookup :: "'c registry \<Rightarrow> Type \<Rightarrow> 'c option" where
  "lookup m k = (case m k of None \<Rightarrow> None | Some c \<Rightarrow> c)"

text \<open>
  The global \<open>codecCache\<close>. An \<open>atomic.Value\<close> that was never stored to loads as nil,
  the failed type assertion gives the nil map, and the nil map reads as the empty map:
  the initial cache is \<open>Map.empty\<close>. The key is the type's identity (\<open>pointer(t)\<close>).
\<close>

record 'c state =
  codecCache :: "'c registry"

text \<open>
  The rest of the package, which proto.go uses and does not define: the codecs of the
  basic kinds (global variables) and the three builders. The builders get the registry
  of the build session, which they may extend.
\<close>

record ('c, 's) package =
  boolCodec :: 'c
  intCodec :: 'c
  int32Codec :: 'c
  int64Codec :: 'c
  uintCodec :: 'c
  uint32Codec :: 'c
  uint64Codec :: 'c
  float32Codec :: 'c
  float64Codec :: 'c
  stringCodec :: 'c
  bytesCodec :: 'c
  byteArrayCodecOf :: "rtype \<Rightarrow> 'c registry \<Rightarrow> 's \<Rightarrow> ('c option \<times> 'c registry, 's) outcome"
  structCodecOf :: "rtype \<Rightarrow> 'c registry \<Rightarrow> 's \<Rightarrow> ('c option \<times> 'c registry, 's) outcome"
  pointerCodecOf :: "rtype \<Rightarrow> 'c registry \<Rightarrow> 's \<Rightarrow> ('c option \<times> 'c registry, 's) outcome"

text \<open>
  What a non-nil \<open>*codec\<close> points to in a state: \<open>c.size\<close>, \<open>c.encode\<close> and
  \<open>c.decode\<close> read the fields of \<open>deref st c\<close>.
\<close>

type_synonym ('c, 's) deref = "'s \<Rightarrow> 'c \<Rightarrow> 's codec"

definition loadCachedCodec ::
  "Type \<Rightarrow> ('c, 'z) state_scheme \<Rightarrow> 'c option \<times> 'c registry" where
  "loadCachedCodec t st = (let cache = codecCache st in (lookup cache t, cache))"

definition storeCachedCodec ::
  "Type \<Rightarrow> 'c registry \<Rightarrow> 'c option \<Rightarrow> ('c, 'z) state_scheme \<Rightarrow> ('c, 'z) state_scheme" where
  "storeCachedCodec t oldCache newCodec st =
     (let newCache = Map.empty ++ oldCache;
          newCache = newCache(t \<mapsto> newCodec)
      in st\<lparr>codecCache := newCache\<rparr>)"

subsection \<open>codecOf\<close>

definition codecOf ::
  "('c, 's) package \<Rightarrow> types \<Rightarrow> Type \<Rightarrow> 'c registry \<Rightarrow> 's
     \<Rightarrow> ('c option \<times> 'c registry, 's) outcome" where
  "codecOf pkg tt t seen st =
     (case lookup seen t of
        Some c \<Rightarrow> Return (Some c, seen) st
      | None \<Rightarrow>
          (case t of
             None \<Rightarrow> Panic NilDereference
           | Some ty \<Rightarrow>
               (case Kind ty of
                  Bool \<Rightarrow> Return (Some (boolCodec pkg), seen) st
                | Int' \<Rightarrow> Return (Some (intCodec pkg), seen) st
                | Int32 \<Rightarrow> Return (Some (int32Codec pkg), seen) st
                | Int64 \<Rightarrow> Return (Some (int64Codec pkg), seen) st
                | Uint \<Rightarrow> Return (Some (uintCodec pkg), seen) st
                | Uint32 \<Rightarrow> Return (Some (uint32Codec pkg), seen) st
                | Uint64 \<Rightarrow> Return (Some (uint64Codec pkg), seen) st
                | Float32 \<Rightarrow> Return (Some (float32Codec pkg), seen) st
                | Float64 \<Rightarrow> Return (Some (float64Codec pkg), seen) st
                | String \<Rightarrow> Return (Some (stringCodec pkg), seen) st
                | Array \<Rightarrow>
                    (case Elem tt ty of
                       Inl p \<Rightarrow> Panic p
                     | Inr elem \<Rightarrow>
                         (case Kind elem of
                            Uint8 \<Rightarrow> byteArrayCodecOf pkg ty seen st
                          | _ \<Rightarrow> Panic (UnsupportedType ty)))
                | Slice \<Rightarrow>
                    (case Elem tt ty of
                       Inl p \<Rightarrow> Panic p
                     | Inr elem \<Rightarrow>
                         (case Kind elem of
                            Uint8 \<Rightarrow> Return (Some (bytesCodec pkg), seen) st
                          | _ \<Rightarrow> Panic (UnsupportedType ty)))
                | Struct \<Rightarrow> structCodecOf pkg ty seen st
                | Ptr \<Rightarrow> pointerCodecOf pkg ty seen st
                | _ \<Rightarrow> Panic (UnsupportedType ty))))"

definition cachedCodecOf ::
  "('c, ('c, 'z) state_scheme) package \<Rightarrow> types \<Rightarrow> Type \<Rightarrow> ('c, 'z) state_scheme
     \<Rightarrow> ('c option, ('c, 'z) state_scheme) outcome" where
  "cachedCodecOf pkg tt t st =
     (case loadCachedCodec t st of
        (Some c, m) \<Rightarrow> Return (Some c) st
      | (None, m) \<Rightarrow>
          (case codecOf pkg tt t Map.empty st of
             Return (c, seen) st1 \<Rightarrow> Return c (storeCachedCodec t m c st1)
           | Panic p \<Rightarrow> Panic p
           | Unfinished \<Rightarrow> Unfinished))"

subsection \<open>Size, Marshal, MarshalTo, Unmarshal\<close>

definition Size ::
  "('c, ('c, 'z) state_scheme) deref \<Rightarrow> ('c, ('c, 'z) state_scheme) package
     \<Rightarrow> types \<Rightarrow> iface \<Rightarrow> ('c, 'z) state_scheme
     \<Rightarrow> (int, ('c, 'z) state_scheme) outcome" where
  "Size deref pkg tt v st =
     (case inspect v of (t, p) \<Rightarrow>
        (case cachedCodecOf pkg tt t st of
           Return None st1 \<Rightarrow> Panic NilDereference
         | Return (Some c) st1 \<Rightarrow> Return (size_fn (deref st1 c) p inline st1) st1
         | Panic e \<Rightarrow> Panic e
         | Unfinished \<Rightarrow> Unfinished))"

text \<open>
  \<open>make([]byte, n)\<close> panics with "makeslice: len out of range" when \<open>n\<close> is negative
  and when \<open>n\<close> bytes are more than the runtime can address, its constant
  \<open>maxAlloc\<close>: \<open>1 << 48\<close> on the 64-bit platforms with 48 bits of heap address
  (linux/amd64). A length within that bound is allocated: memory does not run out.
\<close>

definition maxAlloc :: int where
  "maxAlloc = 2 ^ 48"

text \<open>\<open>Marshal\<close> returns \<open>(nil, err)\<close>, here \<open>Inl err\<close>, or \<open>(b, nil)\<close>, here \<open>Inr b\<close>.\<close>

definition Marshal ::
  "('c, ('c, 'z) state_scheme) deref \<Rightarrow> ('c, ('c, 'z) state_scheme) package
     \<Rightarrow> types \<Rightarrow> iface \<Rightarrow> ('c, 'z) state_scheme
     \<Rightarrow> (error + byte list, ('c, 'z) state_scheme) outcome" where
  "Marshal deref pkg tt v st =
     (case inspect v of (t, p) \<Rightarrow>
        (case cachedCodecOf pkg tt t st of
           Return None st1 \<Rightarrow> Panic NilDereference
         | Return (Some c) st1 \<Rightarrow>
             (let n = size_fn (deref st1 c) p inline st1 in
              if n < 0 \<or> maxAlloc < n then Panic MakesliceLenOutOfRange
              else
                (let b = replicate (nat n) (0 :: byte) in
                 case encode_fn (deref st1 c) b p inline st1 of
                   (ws, k, err) \<Rightarrow>
                     (case err of
                        Some e \<Rightarrow> Return (Inl (MarshalError (typ' v) e)) st1
                      | None \<Rightarrow> Return (Inr (write_into b ws)) st1)))
         | Panic e \<Rightarrow> Panic e
         | Unfinished \<Rightarrow> Unfinished))"

text \<open>\<open>MarshalTo\<close> returns the count and the error; the caller's buffer is the third part.\<close>

definition MarshalTo ::
  "('c, ('c, 'z) state_scheme) deref \<Rightarrow> ('c, ('c, 'z) state_scheme) package
     \<Rightarrow> types \<Rightarrow> byte list \<Rightarrow> iface
     \<Rightarrow> ('c, 'z) state_scheme
     \<Rightarrow> (int \<times> error option \<times> byte list, ('c, 'z) state_scheme) outcome" where
  "MarshalTo deref pkg tt b v st =
     (case inspect v of (t, p) \<Rightarrow>
        (case cachedCodecOf pkg tt t st of
           Return None st1 \<Rightarrow> Panic NilDereference
         | Return (Some c) st1 \<Rightarrow>
             (case encode_fn (deref st1 c) b p inline st1 of
                (ws, n, err) \<Rightarrow>
                  Return (n, map_option MarshalToError err, write_into b ws) st1)
         | Panic e \<Rightarrow> Panic e
         | Unfinished \<Rightarrow> Unfinished))"

text \<open>\<open>Unmarshal\<close> returns an error, \<open>None\<close> for nil.\<close>

definition Unmarshal ::
  "('c, ('c, 'z) state_scheme) deref \<Rightarrow> ('c, ('c, 'z) state_scheme) package
     \<Rightarrow> types \<Rightarrow> byte list \<Rightarrow> iface
     \<Rightarrow> ('c, 'z) state_scheme \<Rightarrow> (error option, ('c, 'z) state_scheme) outcome" where
  "Unmarshal deref pkg tt b v st =
     (if length b = 0 then Return None st
      else
        (case inspect v of (t, p) \<Rightarrow>
           (case t of
              None \<Rightarrow> Panic NilDereference
            | Some ty \<Rightarrow>
                (case Elem tt ty of
                   Inl e \<Rightarrow> Panic e
                 | Inr elem \<Rightarrow>
                     (case cachedCodecOf pkg tt (Some elem) st of
                        Return None st1 \<Rightarrow> Panic NilDereference
                      | Return (Some c) st1 \<Rightarrow>
                          (case decode_fn (deref st1 c) b p noflags st1 of
                             ((n, err), st2) \<Rightarrow>
                               (case err of
                                  Some e \<Rightarrow> Return (Some e) st2
                                | None \<Rightarrow>
                                    if n < int (length b)
                                    then Return (Some (UnmarshalShortRead (typ' v) n (length b))) st2
                                    else Return None st2))
                      | Panic e \<Rightarrow> Panic e
                      | Unfinished \<Rightarrow> Unfinished)))))"

section \<open>The codec builders\<close>

text \<open>
  \<open>byteArrayCodecOf\<close>, \<open>structCodecOf\<close> and \<open>pointerCodecOf\<close> are functions of the
  package that proto.go calls and does not define. The spec (Codec Builder, cycle
  safety) says what they do about recursion: before a builder recurses into the
  dependents of a type it installs a placeholder codec for the type in the registry of
  the build session; it builds the codecs of the dependents through \<open>codecOf\<close>; once
  the codec is complete it patches the placeholder in place. The dependents of a struct
  are the types of its fields, in declaration order, the dependent of a pointer is its
  element type, and an array of bytes has none.
\<close>

text \<open>
  Modelled from the spec: the codecs the builders make, which the package keeps behind
  \<open>*codec\<close> pointers that can be patched. A codec is a cell of a heap of codecs, and
  a \<open>*codec\<close> is the cell's number. The cells 0 to 10 are the global codecs of the
  basic kinds. What the builders store in a cell is the shape of the codec: the codecs
  it delegates to.
\<close>

datatype cdesc =
    Placeholder
  | ByteArrayCodec nat
  | StructCodec "nat option list"
  | PointerCodec "nat option"

record bstate = "nat state" +
  codecs :: "nat \<rightharpoonup> cdesc"
  nextCodec :: nat

definition new_codec :: "'z bstate_scheme \<Rightarrow> nat \<times> 'z bstate_scheme" where
  "new_codec st =
     (nextCodec st,
      st\<lparr>codecs := (codecs st)(nextCodec st \<mapsto> Placeholder), nextCodec := Suc (nextCodec st)\<rparr>)"

definition patch :: "nat \<Rightarrow> cdesc \<Rightarrow> 'z bstate_scheme \<Rightarrow> 'z bstate_scheme" where
  "patch c d st = st\<lparr>codecs := (codecs st)(c \<mapsto> d)\<rparr>"

fun Fields :: "rtype \<Rightarrow> (string \<times> rtype) list" where
  "Fields (TStruct s fs) = fs"
| "Fields t = []"

fun Len :: "rtype \<Rightarrow> nat" where
  "Len (TArray n e) = n"
| "Len t = 0"

text \<open>The builders call \<open>codecOf\<close> back: it is their argument \<open>rec\<close>.\<close>

type_synonym 's builder =
  "Type \<Rightarrow> nat registry \<Rightarrow> 's \<Rightarrow> (nat option \<times> nat registry, 's) outcome"

text \<open>
  Modelled from the spec: the loop of \<open>structCodecOf\<close> over the fields, which builds
  the codec of each field's type in declaration order and stops at the first panic.
\<close>

fun fieldCodecs ::
  "'s builder \<Rightarrow> (string \<times> rtype) list \<Rightarrow> nat registry \<Rightarrow> 's
     \<Rightarrow> (nat option list \<times> nat registry, 's) outcome" where
  "fieldCodecs rec [] seen st = Return ([], seen) st"
| "fieldCodecs rec (f # fs) seen st =
     (case rec (Some (snd f)) seen st of
        Return (c, seen1) st1 \<Rightarrow>
          (case fieldCodecs rec fs seen1 st1 of
             Return (cs, seen2) st2 \<Rightarrow> Return (c # cs, seen2) st2
           | Panic p \<Rightarrow> Panic p
           | Unfinished \<Rightarrow> Unfinished)
      | Panic p \<Rightarrow> Panic p
      | Unfinished \<Rightarrow> Unfinished)"

text \<open>
  Modelled from the spec: \<open>byteArrayCodecOf\<close>, missing from proto.go. A fixed-length
  byte array has no dependents: the builder makes its codec and registers nothing.
\<close>

definition byteArrayCodecOf_spec ::
  "rtype \<Rightarrow> nat registry \<Rightarrow> 'z bstate_scheme
     \<Rightarrow> (nat option \<times> nat registry, 'z bstate_scheme) outcome" where
  "byteArrayCodecOf_spec ty seen st =
     (case new_codec st of
        (c, st1) \<Rightarrow> Return (Some c, seen) (patch c (ByteArrayCodec (Len ty)) st1))"

text \<open>
  Modelled from the spec: \<open>structCodecOf\<close>, missing from proto.go. It installs a
  placeholder for the struct type in the registry, builds the codecs of the fields, and
  patches the placeholder into the struct codec.
\<close>

definition structCodecOf_spec ::
  "'z bstate_scheme builder \<Rightarrow> rtype \<Rightarrow> nat registry \<Rightarrow> 'z bstate_scheme
     \<Rightarrow> (nat option \<times> nat registry, 'z bstate_scheme) outcome" where
  "structCodecOf_spec rec ty seen st =
     (case new_codec st of
        (c, st1) \<Rightarrow>
          (case fieldCodecs rec (Fields ty) (seen(Some ty \<mapsto> Some c)) st1 of
             Return (cs, seen2) st2 \<Rightarrow> Return (Some c, seen2) (patch c (StructCodec cs) st2)
           | Panic p \<Rightarrow> Panic p
           | Unfinished \<Rightarrow> Unfinished))"

text \<open>
  Modelled from the spec: \<open>pointerCodecOf\<close>, missing from proto.go. It installs a
  placeholder for the pointer type in the registry, builds the codec of the element
  type, and patches the placeholder into the pointer codec.
\<close>

definition pointerCodecOf_spec ::
  "types \<Rightarrow> 'z bstate_scheme builder \<Rightarrow> rtype \<Rightarrow> nat registry \<Rightarrow> 'z bstate_scheme
     \<Rightarrow> (nat option \<times> nat registry, 'z bstate_scheme) outcome" where
  "pointerCodecOf_spec tt rec ty seen st =
     (case new_codec st of
        (c, st1) \<Rightarrow>
          (case Elem tt ty of
             Inl p \<Rightarrow> Panic p
           | Inr elem \<Rightarrow>
               (case rec (Some elem) (seen(Some ty \<mapsto> Some c)) st1 of
                  Return (e, seen2) st2 \<Rightarrow>
                    Return (Some c, seen2) (patch c (PointerCodec e) st2)
                | Panic p \<Rightarrow> Panic p
                | Unfinished \<Rightarrow> Unfinished)))"

text \<open>The package with these three builders, its global codecs in the cells 0 to 10.\<close>

definition package_spec ::
  "types \<Rightarrow> 'z bstate_scheme builder \<Rightarrow> (nat, 'z bstate_scheme) package" where
  "package_spec tt rec =
     \<lparr>boolCodec = 0, intCodec = 1, int32Codec = 2, int64Codec = 3, uintCodec = 4,
      uint32Codec = 5, uint64Codec = 6, float32Codec = 7, float64Codec = 8,
      stringCodec = 9, bytesCodec = 10,
      byteArrayCodecOf = byteArrayCodecOf_spec,
      structCodecOf = structCodecOf_spec rec,
      pointerCodecOf = pointerCodecOf_spec tt rec\<rparr>"

text \<open>
  \<open>codecOf\<close> with these builders. The calls go round, from \<open>codecOf\<close> to a builder and
  back, so the first argument bounds their depth: \<open>build n\<close> is \<open>codecOf\<close> where a
  chain of more than \<open>n\<close> nested calls of \<open>codecOf\<close> is cut off as \<open>Unfinished\<close>.
\<close>

primrec build :: "nat \<Rightarrow> types \<Rightarrow> 'z bstate_scheme builder" where
  "build 0 tt = (\<lambda>t seen st. Unfinished)"
| "build (Suc n) tt = (\<lambda>t seen st. codecOf (package_spec tt (build n tt)) tt t seen st)"

text \<open>
  The types a build session has registered, and the types a builder recurses into.
\<close>

definition registered :: "'c registry \<Rightarrow> rtype set" where
  "registered seen = {ty. lookup seen (Some ty) \<noteq> None}"

fun dependents :: "types \<Rightarrow> rtype \<Rightarrow> rtype list" where
  "dependents tt (TStruct s fs) = map snd fs"
| "dependents tt (TPtr e) = [tt e]"
| "dependents tt t = []"

text \<open>
  A call of a builder finishes when it returns or panics; a call that returns keeps
  what the registry held.
\<close>

definition finishes :: "'s builder \<Rightarrow> Type \<Rightarrow> nat registry \<Rightarrow> 's \<Rightarrow> bool" where
  "finishes rec t seen st =
     (rec t seen st \<noteq> Unfinished
      \<and> (\<forall>c seen' st'. rec t seen st = Return (c, seen') st'
            \<longrightarrow> registered seen \<subseteq> registered seen'))"

section \<open>An instance to run examples on\<close>

text \<open>
  The examples run on a memory of 64-bit cells in which every \<open>*codec\<close> points to one
  codec, the varint codec, and on a type table with the self-referential type
  \<open>type Node struct { Value int32; Next *Node }\<close> at index 0, \<open>int32\<close> at index 1
  and \<open>uint8\<close> everywhere else.
\<close>

text \<open>
  Modelled from the spec: the varint primitive (Wire Primitives), whose code is missing
  from proto.go. 7 value bits per byte, the high bit for continuation, the low group
  first, at most 10 bytes; decoding fails as invalid when 10 bytes hold no last byte and
  as truncated when the buffer ends first.
\<close>

fun varint_bytes :: "nat \<Rightarrow> byte list" where
  "varint_bytes n =
     (if n < 128 then [of_nat n]
      else of_nat (128 + n mod 128) # varint_bytes (n div 128))"

fun varint_value :: "nat \<Rightarrow> byte list \<Rightarrow> error + (nat \<times> nat)" where
  "varint_value 0 bs = Inl (CodecError ''invalid encoding'')"
| "varint_value (Suc k) [] = Inl (CodecError ''truncated input'')"
| "varint_value (Suc k) (b # bs) =
     (if unat b < 128 then Inr (unat b, 1)
      else
        (case varint_value k bs of
           Inl e \<Rightarrow> Inl e
         | Inr (v, n) \<Rightarrow> Inr (unat b - 128 + 128 * v, Suc n)))"

declare varint_bytes.simps [simp del]

record xstate = bstate +
  memory :: "addr \<Rightarrow> 64 word"

text \<open>
  Modelled from the spec: a codec of wire type varint for the 64-bit cell at an address.
  Its size is the length of the varint, \<open>encode\<close> fails on a buffer that is too small
  for it, and \<open>decode\<close> stores the value it read.
\<close>

definition varintCodec :: "'z xstate_scheme codec" where
  "varintCodec =
     \<lparr>wire = varint,
      size_fn = (\<lambda>p f st. int (length (varint_bytes (unat (memory st p))))),
      encode_fn = (\<lambda>b p f st.
         (let ws = varint_bytes (unat (memory st p)) in
          if length b < length ws then ([], 0, Some (CodecError ''short buffer''))
          else (ws, int (length ws), None))),
      decode_fn = (\<lambda>b p f st.
         (case varint_value 10 b of
            Inl e \<Rightarrow> ((0, Some e), st)
          | Inr (v, n) \<Rightarrow> ((int n, None), st\<lparr>memory := (memory st)(p := of_nat v)\<rparr>)))\<rparr>"

definition ex_deref :: "(nat, 'z xstate_scheme) deref" where
  "ex_deref st c = varintCodec"

definition Node :: rtype where
  "Node = TStruct ''Node'' [(''Value'', TInt32), (''Next'', TPtr 0)]"

definition ex_types :: types where
  "ex_types i = (if i = 0 then Node else if i = 1 then TInt32 else TUint8)"

definition ex_package :: "(nat, xstate) package" where
  "ex_package = package_spec ex_types (build 3 ex_types)"

text \<open>The initial state, with the empty cache, in which every cell of the memory holds \<open>x\<close>.\<close>

definition ex_state :: "64 word \<Rightarrow> xstate" where
  "ex_state x =
     \<lparr>codecCache = Map.empty, codecs = Map.empty, nextCodec = 11, memory = (\<lambda>p. x)\<rparr>"

text \<open>The same state once the codec of \<open>int32\<close> is in the cache.\<close>

definition ex_cached :: "64 word \<Rightarrow> xstate" where
  "ex_cached x = (ex_state x)\<lparr>codecCache := [Some TInt32 \<mapsto> Some 2]\<rparr>"

section \<open>The codec functions\<close>

text \<open>
  The \<open>size\<close> and \<open>encode\<close> functions that the fields of a \<open>*codec\<close> hold are
  functions of the package that proto.go calls and does not define. The spec (Wire
  Primitives, Composite Codecs) says what they compute, and it says it twice: the size
  functions are arithmetic and touch no buffer, the encode functions write the bytes.
\<close>

text \<open>
  Modelled from the spec: the values a handle refers to. A number of at most 64 bits
  (booleans, integers and the bits of a float), a byte string (a string or a slice of
  bytes), a fixed-length array of bytes, a struct with its fields in declaration order,
  and a pointer that is nil or holds a value.
\<close>

datatype val =
    VNum "64 word"
  | VBytes "byte list"
  | VArray "byte list"
  | VStruct "val list"
  | VPtr "val option"

text \<open>The memory with the codecs: the value stored at each address.\<close>

record vstate = bstate +
  valueAt :: "addr \<Rightarrow> val"

text \<open>
  Modelled from the spec: the size of a varint (the encoding itself is \<open>varint_bytes\<close>),
  one byte for each group of 7 bits.
\<close>

fun sizeOfVarint :: "nat \<Rightarrow> nat" where
  "sizeOfVarint n = (if n < 128 then 1 else Suc (sizeOfVarint (n div 128)))"

declare sizeOfVarint.simps [simp del]

text \<open>
  Modelled from the spec: fixed32 and fixed64, the raw 4 or 8 bytes of the number, the
  low byte first.
\<close>

fun fixed_bytes :: "nat \<Rightarrow> nat \<Rightarrow> byte list" where
  "fixed_bytes 0 n = []"
| "fixed_bytes (Suc k) n = of_nat (n mod 256) # fixed_bytes k (n div 256)"

text \<open>
  Modelled from the spec: varlen, a varint length prefix \<open>N\<close> followed by exactly \<open>N\<close>
  raw bytes, and its size.
\<close>

definition varlen_bytes :: "byte list \<Rightarrow> byte list" where
  "varlen_bytes bs = varint_bytes (length bs) @ bs"

definition sizeOfVarlen :: "nat \<Rightarrow> nat" where
  "sizeOfVarlen n = sizeOfVarint n + n"

text \<open>Modelled from the spec: the tag of a field, \<open>(fieldNumber << 3) | wireType\<close>.\<close>

definition tag :: "nat \<Rightarrow> wireType \<Rightarrow> nat" where
  "tag number wt = nat (push_bit 3 (int number) OR wt)"

text \<open>
  What a codec holds besides the codecs it delegates to, which the spec names and the
  builders of the package set: the wire type of each codec, the field number of each
  field of a struct codec, and for a composite codec the inlining decision of its type.
  The spec does not say which values they have (which wire type the codec of a basic
  kind has, where a field number is declared): they are left open here, and what is
  proved holds for each choice.
\<close>

record layout =
  wireOf :: "nat \<Rightarrow> wireType"
  numberOf :: "nat \<Rightarrow> nat \<Rightarrow> nat"
  inlinedOf :: "nat \<Rightarrow> bool"

text \<open>
  Modelled from the spec: a zero-valued field, which a struct codec elides. The zero
  number, the empty byte string, the array of zero bytes, the nil pointer, and a struct
  of zero-valued fields.
\<close>

fun zero_valued :: "val \<Rightarrow> bool" where
  "zero_valued (VNum x) = (x = 0)"
| "zero_valued (VBytes bs) = (bs = [])"
| "zero_valued (VArray bs) = list_all (\<lambda>b. b = 0) bs"
| "zero_valued (VStruct vs) = list_all zero_valued vs"
| "zero_valued (VPtr None) = True"
| "zero_valued (VPtr (Some w)) = False"

text \<open>
  Modelled from the spec: the flags a composite codec passes down. \<open>wantzero\<close> goes
  down unchanged; \<open>inline\<close> is not inherited but set from the inlining decision the
  codec holds.
\<close>

definition child_flags :: "layout \<Rightarrow> nat \<Rightarrow> flags \<Rightarrow> flags" where
  "child_flags L c fl =
     (if inlinedOf L c then flags_with fl inline else flags_without fl inline)"

text \<open>
  Modelled from the spec: the codec of a basic kind writes its value in the physical
  encoding of its wire type, a number as a varint, as fixed64 or as fixed32, a byte
  string as varlen. A value that does not fit the wire type gives no bytes.
\<close>

definition encode_primitive :: "wireType \<Rightarrow> val \<Rightarrow> byte list" where
  "encode_primitive wt v =
     (case v of
        VNum x \<Rightarrow>
          (if wt = varint then varint_bytes (unat x)
           else if wt = fixed64 then fixed_bytes 8 (unat x)
           else if wt = fixed32 then fixed_bytes 4 (unat x)
           else [])
      | VBytes bs \<Rightarrow> (if wt = varlen then varlen_bytes bs else [])
      | _ \<Rightarrow> [])"

definition size_primitive :: "wireType \<Rightarrow> val \<Rightarrow> nat" where
  "size_primitive wt v =
     (case v of
        VNum x \<Rightarrow>
          (if wt = varint then sizeOfVarint (unat x)
           else if wt = fixed64 then 8
           else if wt = fixed32 then 4
           else 0)
      | VBytes bs \<Rightarrow> (if wt = varlen then sizeOfVarlen (length bs) else 0)
      | _ \<Rightarrow> 0)"

text \<open>
  Modelled from the spec: the encode function of the codec in cell \<open>c\<close> of the heap
  \<open>H\<close>, on the value a handle refers to. A cell outside the heap is the global codec of
  a basic kind. A byte array is one varlen block. A struct codec goes through the fields
  in declaration order and writes each field that is not zero-valued, or every field
  under \<open>wantzero\<close>, as its tag and the field's encoding. A pointer codec writes
  nothing for nil, and for a pointer that holds a value the encoding of that value,
  directly under \<open>inline\<close> and as a varlen block otherwise. A value that does not fit
  the codec, and a placeholder, give no bytes.
\<close>

fun encode_val :: "layout \<Rightarrow> (nat \<rightharpoonup> cdesc) \<Rightarrow> nat \<Rightarrow> val \<Rightarrow> flags \<Rightarrow> byte list"
  and encode_fields ::
    "layout \<Rightarrow> (nat \<rightharpoonup> cdesc) \<Rightarrow> nat \<Rightarrow> nat \<Rightarrow> nat option list \<Rightarrow> val list \<Rightarrow> flags
       \<Rightarrow> byte list" where
  "encode_val L H c (VNum x) fl =
     (case H c of None \<Rightarrow> encode_primitive (wireOf L c) (VNum x) | Some d \<Rightarrow> [])"
| "encode_val L H c (VBytes bs) fl =
     (case H c of None \<Rightarrow> encode_primitive (wireOf L c) (VBytes bs) | Some d \<Rightarrow> [])"
| "encode_val L H c (VArray bs) fl =
     (case H c of Some (ByteArrayCodec n) \<Rightarrow> varlen_bytes bs | _ \<Rightarrow> [])"
| "encode_val L H c (VStruct vs) fl =
     (case H c of Some (StructCodec cs) \<Rightarrow> encode_fields L H c 0 cs vs fl | _ \<Rightarrow> [])"
| "encode_val L H c (VPtr None) fl = []"
| "encode_val L H c (VPtr (Some w)) fl =
     (case H c of
        Some (PointerCodec (Some e)) \<Rightarrow>
          (if flags_has fl inline then encode_val L H e w (child_flags L c fl)
           else varlen_bytes (encode_val L H e w (child_flags L c fl)))
      | _ \<Rightarrow> [])"
| "encode_fields L H c i (Some k # ds) (v # vs) fl =
     (if zero_valued v \<and> \<not> flags_has fl wantzero then []
      else varint_bytes (tag (numberOf L c i) (wireOf L k))
           @ encode_val L H k v (child_flags L c fl))
     @ encode_fields L H c (Suc i) ds vs fl"
| "encode_fields L H c i (None # ds) (v # vs) fl = encode_fields L H c (Suc i) ds vs fl"
| "encode_fields L H c i ds vs fl = []"

text \<open>
  Modelled from the spec: the size function of the codec in cell \<open>c\<close>, the same walk
  with the sizes of the wire primitives added up and no byte written.
\<close>

fun size_val :: "layout \<Rightarrow> (nat \<rightharpoonup> cdesc) \<Rightarrow> nat \<Rightarrow> val \<Rightarrow> flags \<Rightarrow> nat"
  and size_fields ::
    "layout \<Rightarrow> (nat \<rightharpoonup> cdesc) \<Rightarrow> nat \<Rightarrow> nat \<Rightarrow> nat option list \<Rightarrow> val list \<Rightarrow> flags
       \<Rightarrow> nat" where
  "size_val L H c (VNum x) fl =
     (case H c of None \<Rightarrow> size_primitive (wireOf L c) (VNum x) | Some d \<Rightarrow> 0)"
| "size_val L H c (VBytes bs) fl =
     (case H c of None \<Rightarrow> size_primitive (wireOf L c) (VBytes bs) | Some d \<Rightarrow> 0)"
| "size_val L H c (VArray bs) fl =
     (case H c of Some (ByteArrayCodec n) \<Rightarrow> sizeOfVarlen (length bs) | _ \<Rightarrow> 0)"
| "size_val L H c (VStruct vs) fl =
     (case H c of Some (StructCodec cs) \<Rightarrow> size_fields L H c 0 cs vs fl | _ \<Rightarrow> 0)"
| "size_val L H c (VPtr None) fl = 0"
| "size_val L H c (VPtr (Some w)) fl =
     (case H c of
        Some (PointerCodec (Some e)) \<Rightarrow>
          (if flags_has fl inline then size_val L H e w (child_flags L c fl)
           else sizeOfVarlen (size_val L H e w (child_flags L c fl)))
      | _ \<Rightarrow> 0)"
| "size_fields L H c i (Some k # ds) (v # vs) fl =
     (if zero_valued v \<and> \<not> flags_has fl wantzero then 0
      else sizeOfVarint (tag (numberOf L c i) (wireOf L k))
           + size_val L H k v (child_flags L c fl))
     + size_fields L H c (Suc i) ds vs fl"
| "size_fields L H c i (None # ds) (v # vs) fl = size_fields L H c (Suc i) ds vs fl"
| "size_fields L H c i ds vs fl = 0"

text \<open>
  Modelled from the spec: what a \<open>*codec\<close> points to. Its \<open>size\<close> is the size function
  on the value at the address; its \<open>encode\<close> fails when the buffer is too small for
  the encoding, and otherwise stores the encoding and reports its length. The \<open>decode\<close>
  functions play no part in \<open>Size\<close> and \<open>Marshal\<close> and are left open.
\<close>

type_synonym 's decodeFunc =
  "byte list \<Rightarrow> addr \<Rightarrow> flags \<Rightarrow> 's \<Rightarrow> (int \<times> error option) \<times> 's"

definition codec_spec ::
  "layout \<Rightarrow> (nat \<Rightarrow> 'z vstate_scheme decodeFunc) \<Rightarrow> (nat, 'z vstate_scheme) deref" where
  "codec_spec L dec st c =
     \<lparr>wire = wireOf L c,
      size_fn = (\<lambda>p fl s. int (size_val L (codecs s) c (valueAt s p) fl)),
      encode_fn = (\<lambda>b p fl s.
         (let ws = encode_val L (codecs s) c (valueAt s p) fl in
          if length b < length ws then ([], 0, Some (CodecError ''short buffer''))
          else (ws, int (length ws), None))),
      decode_fn = dec c\<rparr>"

text \<open>
  For the examples: the codecs of the integer kinds are varint, those of the floats
  fixed32 and fixed64, every other codec is varlen; the fields of a struct are numbered
  from 1 in declaration order; and the memory holds, at every address, a \<open>Node\<close> with
  the value 150 and no next node.
\<close>

definition ex_layout :: layout where
  "ex_layout =
     \<lparr>wireOf = (\<lambda>c. if c \<le> 6 then varint else if c = 7 then fixed32
                   else if c = 8 then fixed64 else varlen),
      numberOf = (\<lambda>c i. Suc i),
      inlinedOf = (\<lambda>c. False)\<rparr>"

definition ex_decode_none :: "nat \<Rightarrow> vstate decodeFunc" where
  "ex_decode_none c b p fl s = ((0, None), s)"

definition ex_vstate :: vstate where
  "ex_vstate =
     \<lparr>codecCache = Map.empty, codecs = Map.empty, nextCodec = 11,
      valueAt = (\<lambda>p. VStruct [VNum 150, VPtr None])\<rparr>"

definition ex_vpackage :: "(nat, vstate) package" where
  "ex_vpackage = package_spec ex_types (build 3 ex_types)"

section \<open>Properties\<close>

subsection \<open>The cache and the registry\<close>

lemma lookup_Some: "lookup m k = Some c \<Longrightarrow> m k = Some (Some c)"
  by (auto simp: lookup_def split: option.splits)

lemma storeCachedCodec_cache:
  "codecCache (storeCachedCodec t old c st) = old(t \<mapsto> c)"
  by (simp add: storeCachedCodec_def)

lemma cachedCodecOf_hit:
  "lookup (codecCache st) t = Some c \<Longrightarrow> cachedCodecOf pkg tt t st = Return (Some c) st"
  by (simp add: cachedCodecOf_def loadCachedCodec_def)

lemma cachedCodecOf_miss:
  "lookup (codecCache st) t = None \<Longrightarrow>
   cachedCodecOf pkg tt t st =
     (case codecOf pkg tt t Map.empty st of
        Return (c, seen) st1 \<Rightarrow> Return c (storeCachedCodec t (codecCache st) c st1)
      | Panic p \<Rightarrow> Panic p
      | Unfinished \<Rightarrow> Unfinished)"
  by (simp add: cachedCodecOf_def loadCachedCodec_def)

lemma cachedCodecOf_cache:
  assumes "cachedCodecOf pkg tt t st = Return c st'"
  shows "codecCache st' = (codecCache st)(t \<mapsto> c)"
proof (cases "lookup (codecCache st) t")
  case None
  with assms show ?thesis
    by (auto simp: cachedCodecOf_miss storeCachedCodec_cache split: outcome.splits prod.splits)
next
  case (Some x)
  then have "codecCache st t = Some (Some x)" by (rule lookup_Some)
  moreover from Some assms have "c = Some x" "st' = st" by (simp_all add: cachedCodecOf_hit)
  ultimately show ?thesis by (simp add: fun_upd_idem)
qed

lemma codecOf_seen:
  "lookup seen t = Some c \<Longrightarrow> codecOf pkg tt t seen st = Return (Some c, seen) st"
  by (simp add: codecOf_def)

lemma codecOf_cases:
  assumes "lookup seen (Some ty) = None"
  shows "(Kind ty = Struct \<and> codecOf pkg tt (Some ty) seen st = structCodecOf pkg ty seen st)
    \<or> (Kind ty = Ptr \<and> codecOf pkg tt (Some ty) seen st = pointerCodecOf pkg ty seen st)
    \<or> (Kind ty = Array \<and> codecOf pkg tt (Some ty) seen st = byteArrayCodecOf pkg ty seen st)
    \<or> (\<exists>c. codecOf pkg tt (Some ty) seen st = Return (Some c, seen) st)
    \<or> (\<exists>p. codecOf pkg tt (Some ty) seen st = Panic p)"
  using assms
  by (auto simp: codecOf_def split: kind.splits sum.splits)

lemma registered_update:
  "registered (seen(Some ty \<mapsto> Some c)) = insert ty (registered seen)"
  by (auto simp: registered_def lookup_def)

lemma not_registered: "lookup seen (Some ty) = None \<Longrightarrow> ty \<notin> registered seen"
  by (simp add: registered_def)

lemma length_write_into: "length (write_into b ws) = length b"
  by (simp add: write_into_def)

subsection \<open>The builders finish\<close>

lemma fieldCodecs_finishes:
  assumes "\<And>f seen' st'. f \<in> set fs \<Longrightarrow> S \<subseteq> registered seen'
      \<Longrightarrow> finishes rec (Some (snd f)) seen' st'"
    and "S \<subseteq> registered seen"
  shows "fieldCodecs rec fs seen st \<noteq> Unfinished
    \<and> (\<forall>cs seen2 st2. fieldCodecs rec fs seen st = Return (cs, seen2) st2
          \<longrightarrow> registered seen \<subseteq> registered seen2)"
  using assms
proof (induction fs arbitrary: seen st)
  case Nil
  then show ?case by simp
next
  case (Cons f fs)
  have f: "finishes rec (Some (snd f)) seen st"
    using Cons.prems by simp
  show ?case
  proof (cases "rec (Some (snd f)) seen st")
    case (Return r st1)
    obtain c seen1 where r: "r = (c, seen1)" by (cases r)
    with f Return have mono: "registered seen \<subseteq> registered seen1"
      by (simp add: finishes_def)
    with Cons.prems(2) have S1: "S \<subseteq> registered seen1" by blast
    have IH: "fieldCodecs rec fs seen1 st1 \<noteq> Unfinished
       \<and> (\<forall>cs seen2 st2. fieldCodecs rec fs seen1 st1 = Return (cs, seen2) st2
          \<longrightarrow> registered seen1 \<subseteq> registered seen2)"
      using Cons.IH [OF _ S1] Cons.prems(1) by simp
    with Return r mono show ?thesis
      by (auto split: outcome.splits)
  next
    case (Panic p)
    then show ?thesis by simp
  next
    case Unfinished
    with f show ?thesis by (simp add: finishes_def)
  qed
qed

lemma Struct_dependents: "Kind ty = Struct \<Longrightarrow> map snd (Fields ty) = dependents tt ty"
  by (cases ty) simp_all

lemma Ptr_dependents: "Kind ty = Ptr \<Longrightarrow> \<exists>e. Elem tt ty = Inr e \<and> dependents tt ty = [e]"
  by (cases ty) simp_all

text \<open>
  In a set \<open>U\<close> of types that holds the dependents of each of its members, a build
  needs no deeper chain of calls than \<open>U\<close> has types that are not yet registered, and
  one more: each call that does not return at once registers a new type of \<open>U\<close>
  before it calls on.
\<close>

lemma build_finishes:
  fixes st :: "'z bstate_scheme"
  assumes "finite U" and "\<forall>u\<in>U. set (dependents tt u) \<subseteq> U"
  shows "ty \<in> U \<Longrightarrow> card (U - registered seen) < n
    \<Longrightarrow> finishes (build n tt) (Some ty) seen st"
proof (induction n arbitrary: ty seen st)
  case 0
  then show ?case by simp
next
  case (Suc n ty seen st)
  let ?pkg = "package_spec tt (build n tt) :: (nat, 'z bstate_scheme) package"
  show ?case
  proof (cases "lookup seen (Some ty)")
    case (Some c)
    then show ?thesis by (simp add: finishes_def codecOf_seen)
  next
    case None
    then have ty: "ty \<in> U - registered seen"
      using Suc.prems(1) by (simp add: not_registered)
    have fin: "finite (U - registered seen)" using assms(1) by simp
    have rec: "finishes (build n tt) (Some u) seen' st'"
      if "u \<in> U" and "insert ty (registered seen) \<subseteq> registered seen'"
      for u seen' and st' :: "'z bstate_scheme"
    proof -
      have "U - registered seen' \<subseteq> (U - registered seen) - {ty}" using that(2) by blast
      then have "card (U - registered seen') \<le> card ((U - registered seen) - {ty})"
        using fin by (simp add: card_mono)
      also have "\<dots> < card (U - registered seen)"
        using ty fin by (rule_tac card_Diff1_less) simp_all
      finally have "card (U - registered seen') < n" using Suc.prems(2) by simp
      with that(1) show ?thesis by (rule Suc.IH)
    qed
    from codecOf_cases [OF None, of ?pkg tt st] show ?thesis
    proof (elim disjE conjE exE)
      assume k: "Kind ty = Struct"
        and eq: "codecOf ?pkg tt (Some ty) seen st = structCodecOf ?pkg ty seen st"
      obtain c st1 where nc: "new_codec st = (c, st1)" by (cases "new_codec st")
      have deps: "snd f \<in> U" if "f \<in> set (Fields ty)" for f
      proof -
        from that have "snd f \<in> set (map snd (Fields ty))" by simp
        then have "snd f \<in> set (dependents tt ty)"
          unfolding Struct_dependents [OF k, of tt] .
        then show ?thesis using assms(2) Suc.prems(1) by blast
      qed
      have fc: "fieldCodecs (build n tt) (Fields ty) (seen(Some ty \<mapsto> Some c)) st1 \<noteq> Unfinished
        \<and> (\<forall>cs seen2 st2.
             fieldCodecs (build n tt) (Fields ty) (seen(Some ty \<mapsto> Some c)) st1
               = Return (cs, seen2) st2
             \<longrightarrow> registered (seen(Some ty \<mapsto> Some c)) \<subseteq> registered seen2)"
        by (rule fieldCodecs_finishes [where S = "insert ty (registered seen)"])
          (auto simp: registered_update intro: rec deps)
      show ?thesis
        using fc nc eq
        by (auto simp: finishes_def package_spec_def structCodecOf_spec_def registered_update
            split: outcome.splits)
    next
      assume k: "Kind ty = Ptr"
        and eq: "codecOf ?pkg tt (Some ty) seen st = pointerCodecOf ?pkg ty seen st"
      obtain c st1 where nc: "new_codec st = (c, st1)" by (cases "new_codec st")
      from Ptr_dependents [OF k] obtain e where e: "Elem tt ty = Inr e" "dependents tt ty = [e]"
        by blast
      then have "e \<in> U" using assms(2) Suc.prems(1) by fastforce
      then have "finishes (build n tt) (Some e) (seen(Some ty \<mapsto> Some c)) st1"
        by (rule rec) (simp add: registered_update)
      then show ?thesis
        using nc eq e(1)
        by (auto simp: finishes_def package_spec_def pointerCodecOf_spec_def registered_update
            split: outcome.splits)
    next
      assume "Kind ty = Array"
        and eq: "codecOf ?pkg tt (Some ty) seen st = byteArrayCodecOf ?pkg ty seen st"
      then show ?thesis
        by (auto simp: finishes_def package_spec_def byteArrayCodecOf_spec_def split: prod.splits)
    next
      fix c assume "codecOf ?pkg tt (Some ty) seen st = Return (Some c, seen) st"
      then show ?thesis by (simp add: finishes_def)
    next
      fix p assume "codecOf ?pkg tt (Some ty) seen st = Panic p"
      then show ?thesis by (simp add: finishes_def)
    qed
  qed
qed

subsection \<open>Size and encode agree\<close>

lemma length_varint_bytes: "length (varint_bytes n) = sizeOfVarint n"
  by (induction n rule: varint_bytes.induct)
    (simp add: varint_bytes.simps sizeOfVarint.simps)

lemma length_fixed_bytes: "length (fixed_bytes k n) = k"
  by (induction k arbitrary: n) simp_all

lemma length_varlen_bytes: "length (varlen_bytes bs) = sizeOfVarlen (length bs)"
  by (simp add: varlen_bytes_def sizeOfVarlen_def length_varint_bytes)

lemma length_encode_primitive: "length (encode_primitive wt v) = size_primitive wt v"
  by (simp add: encode_primitive_def size_primitive_def length_varint_bytes
      length_fixed_bytes length_varlen_bytes split: val.splits)

lemma length_encode_val:
  "length (encode_val L H c v fl) = size_val L H c v fl"
  "length (encode_fields L H k i ds vs fl) = size_fields L H k i ds vs fl"
  by (induction L H c v fl and L H k i ds vs fl rule: encode_val_encode_fields.induct)
    (auto simp: length_encode_primitive length_varlen_bytes length_varint_bytes
      split: option.splits cdesc.splits)

text \<open>With these codec functions \<open>Marshal\<close> returns the encoding of the value.\<close>

lemma Marshal_codec_spec:
  fixes st :: "'z vstate_scheme"
  assumes "cachedCodecOf pkg tt (typ' v) st = Return (Some c) st1"
    and "size_fn (codec_spec L dec st1 c) (ptr' v) inline st1 \<le> maxAlloc"
  shows "Marshal (codec_spec L dec) pkg tt v st
     = Return (Inr (encode_val L (codecs st1) c (valueAt st1 (ptr' v)) inline)) st1"
  using assms
  by (simp add: Marshal_def inspect_def pointer_def codec_spec_def Let_def
      length_encode_val write_into_def)

lemma encode_codec_spec:
  "encode_fn (codec_spec L dec st1 c) (replicate (size_val L (codecs s) c (valueAt s p) fl) 0)
     p fl s
   = (encode_val L (codecs s) c (valueAt s p) fl,
      int (size_val L (codecs s) c (valueAt s p) fl), None)"
  by (simp add: codec_spec_def Let_def length_encode_val)

subsection \<open>The examples\<close>

text \<open>The bound of a decoder and of a build, written as a numeral, unfolds by one.\<close>

lemma varint_value_numeral:
  "varint_value (numeral k) [] = Inl (CodecError ''truncated input'')"
  "varint_value (numeral k) (b # bs) =
     (if unat b < 128 then Inr (unat b, 1)
      else
        (case varint_value (pred_numeral k) bs of
           Inl e \<Rightarrow> Inl e
         | Inr (v, n) \<Rightarrow> Inr (unat b - 128 + 128 * v, Suc n)))"
  by (simp_all add: numeral_eq_Suc)

lemma build_numeral:
  "build (numeral k) tt =
     (\<lambda>t seen st. codecOf (package_spec tt (build (pred_numeral k) tt)) tt t seen st)"
  by (simp add: numeral_eq_Suc)

lemma varint_300: "varint_bytes 300 = [172, 2]"
  by (simp add: varint_bytes.simps)

lemma varint_value_300:
  "varint_value 10 [172, 2, 0] = Inr (300, 2)"
  "varint_value 10 [172, 2] = Inr (300, 2)"
  by (simp_all add: varint_value_numeral)

lemmas ex_defs =
  ex_package_def package_spec_def ex_state_def ex_types_def Node_def ex_deref_def
  cachedCodecOf_def loadCachedCodec_def storeCachedCodec_def lookup_def codecOf_def
  structCodecOf_spec_def pointerCodecOf_spec_def byteArrayCodecOf_spec_def
  new_codec_def patch_def inspect_def pointer_def

lemma ex_Node_codec:
  "\<exists>st'. cachedCodecOf ex_package ex_types (Some Node) (ex_state 0) = Return (Some 11) st'"
  by (simp add: ex_defs build_numeral)

lemma ex_int32_codec:
  "cachedCodecOf ex_package ex_types (Some TInt32) (ex_state x) = Return (Some 2) (ex_cached x)"
  by (simp add: ex_defs ex_cached_def)

lemma ex_decode:
  "decode_fn (ex_deref (ex_cached 0) 2) [172, 2, 0] 7 noflags (ex_cached 0)
     = ((2, None), (ex_cached 0)\<lparr>memory := (\<lambda>p. 0)(7 := 300)\<rparr>)"
  "decode_fn (ex_deref (ex_cached 0) 2) [172, 2] 7 noflags (ex_cached 0)
     = ((2, None), (ex_cached 0)\<lparr>memory := (\<lambda>p. 0)(7 := 300)\<rparr>)"
  by (simp_all add: ex_deref_def varintCodec_def varint_value_300 ex_cached_def ex_state_def)

lemma varint_bytes_numeral:
  "varint_bytes (numeral k) =
     (if (numeral k :: nat) < 128 then [of_nat (numeral k)]
      else of_nat (128 + numeral k mod 128) # varint_bytes (numeral k div 128))"
  by (rule varint_bytes.simps)

lemma varint_bytes_small: "n < 128 \<Longrightarrow> varint_bytes n = [of_nat n]"
  by (simp add: varint_bytes.simps)

lemma varint_bytes_1: "varint_bytes 1 = [1]" "varint_bytes (Suc 0) = [1]"
  by (simp_all add: varint_bytes.simps)

lemma ex_flags:
  "flags_has inline wantzero = False"
  "flags_has inline inline = True"
  by (simp_all add: flags_has_def inline_def wantzero_def)

lemma ex_tag: "tag (Suc 0) varint = 8"
  by (simp add: tag_def varint_def)

lemma ex_Node_vcodec:
  "\<exists>st1. cachedCodecOf ex_vpackage ex_types (Some Node) ex_vstate = Return (Some 11) st1
     \<and> codecs st1 11 = Some (StructCodec [Some 2, Some 12]) \<and> codecs st1 2 = None
     \<and> valueAt st1 = (\<lambda>p. VStruct [VNum 150, VPtr None])"
  by (simp add: ex_vpackage_def ex_vstate_def package_spec_def ex_types_def Node_def
      cachedCodecOf_def loadCachedCodec_def storeCachedCodec_def lookup_def codecOf_def
      structCodecOf_spec_def pointerCodecOf_spec_def new_codec_def patch_def build_numeral)

text \<open>
  The spec's byte-slice scenario: a field of three bytes with field number 2 is the tag
  \<open>0x12\<close>, the length 3 and the bytes; the zero-valued field before it is elided.
\<close>

lemma ex_bytes_field:
  "encode_val ex_layout [11 \<mapsto> StructCodec [Some 2, Some 10]] 11
      (VStruct [VNum 0, VBytes [1, 2, 3]]) inline
     = [18, 3, 1, 2, 3]"
  by (simp add: ex_layout_def ex_flags tag_def varlen_def child_flags_def encode_primitive_def
      varlen_bytes_def varint_bytes_numeral varint_bytes_small)

lemma ex_decode_5:
  "decode_fn (ex_deref (ex_cached 1) 2) [5] 7 noflags (ex_cached 1)
     = ((1, None), (ex_cached 1)\<lparr>memory := (\<lambda>p. 1)(7 := 5)\<rparr>)"
  by (simp add: ex_deref_def varintCodec_def varint_value_numeral ex_cached_def ex_state_def)

subsection \<open>The claims\<close>

text \<open>
  C10. The four wire type codes are the protobuf values: varint is 0, fixed64 is 1,
  varlen is 2 and fixed32 is 5. They are the only codes \<open>String\<close> names.
\<close>

theorem wireType_codes:
  "varint = 0 \<and> fixed64 = 1 \<and> varlen = 2 \<and> fixed32 = 5
   \<and> (wireType_String wt \<noteq> ''unknown'') = (wt \<in> {0, 1, 2, 5})"
  by (auto simp: varint_def fixed64_def varlen_def fixed32_def wireType_String_def)

text \<open>
  C9. \<open>inlined t\<close> is true exactly when \<open>t\<close> is a pointer type, a map type, or a
  struct with exactly one field whose type is inlined in turn; for every other kind it
  is false.
\<close>

theorem inlined_iff:
  "inlined t =
     (Kind t = Ptr \<or> Kind t = Map
      \<or> (Kind t = Struct \<and> NumField t = 1 \<and> inlined (FieldType t 0)))"
proof (cases t)
  case (TStruct s fs)
  then show ?thesis
  proof (cases fs)
    case Nil
    with TStruct show ?thesis by simp
  next
    case (Cons f gs)
    with TStruct show ?thesis by (cases gs) auto
  qed
qed simp_all

text \<open>
  C7. \<open>storeCachedCodec\<close> installs the old snapshot plus the new entry. When
  \<open>cachedCodecOf t\<close> has returned the codec \<open>c\<close>, the cache is the cache of before with
  \<open>t\<close> mapped to \<open>c\<close>: it maps \<open>t\<close> to the codec returned, every key of the old cache is
  still a key, and every codec the old cache held is still held, whatever the builders
  of the package did in between. (One thread; the atomic store is a plain assignment.)
\<close>

theorem cache_only_grows:
  "codecCache (storeCachedCodec t old c st) = old(t \<mapsto> c)
   \<and> (cachedCodecOf pkg tt t st = Return c st' \<longrightarrow>
        codecCache st' = (codecCache st)(t \<mapsto> c)
        \<and> codecCache st' t = Some c
        \<and> dom (codecCache st) \<subseteq> dom (codecCache st')
        \<and> (\<forall>k x. codecCache st k = Some (Some x) \<longrightarrow> codecCache st' k = Some (Some x)))"
proof (intro conjI impI)
  show "codecCache (storeCachedCodec t old c st) = old(t \<mapsto> c)"
    by (rule storeCachedCodec_cache)
next
  assume r: "cachedCodecOf pkg tt t st = Return c st'"
  then show eq: "codecCache st' = (codecCache st)(t \<mapsto> c)" by (rule cachedCodecOf_cache)
  then show "codecCache st' t = Some c" by simp
  from eq show "dom (codecCache st) \<subseteq> dom (codecCache st')" by auto
  show "\<forall>k x. codecCache st k = Some (Some x) \<longrightarrow> codecCache st' k = Some (Some x)"
  proof (intro allI impI)
    fix k x assume k: "codecCache st k = Some (Some x)"
    show "codecCache st' k = Some (Some x)"
    proof (cases "k = t")
      case False
      with eq k show ?thesis by simp
    next
      case True
      with k have "lookup (codecCache st) t = Some x" by (simp add: lookup_def)
      with r have "st' = st" by (simp add: cachedCodecOf_hit)
      with k show ?thesis by simp
    qed
  qed
qed

text \<open>
  An instance of C7: the first \<open>cachedCodecOf\<close> of the type \<open>Node\<close> returns the codec
  in cell 11 and leaves it in the cache.
\<close>

theorem cache_only_grows_witness:
  "(case cachedCodecOf ex_package ex_types (Some Node) (ex_state 0) of
      Return c st' \<Rightarrow> c = Some 11 \<and> codecCache st' (Some Node) = Some (Some 11)
    | _ \<Rightarrow> False)"
proof -
  from ex_Node_codec obtain st' where
    r: "cachedCodecOf ex_package ex_types (Some Node) (ex_state 0) = Return (Some 11) st'" ..
  with cache_only_grows [where pkg = ex_package and tt = ex_types and t = "Some Node"
      and st = "ex_state 0" and c = "Some 11" and st' = st']
  have "codecCache st' (Some Node) = Some (Some 11)" by blast
  with r show ?thesis by simp
qed

text \<open>
  C5. With a zero-length buffer \<open>Unmarshal\<close> returns nil for every target and leaves
  the whole state, the target in it, as it was.
\<close>

theorem Unmarshal_empty_buffer:
  "Unmarshal deref pkg tt [] v st = Return None st"
  by (simp add: Unmarshal_def)

text \<open>
  C3, as stated, fails on maps: \<open>codecOf\<close> has no case for the kind Map and panics
  with "unsupported type".
\<close>

theorem codecOf_Map_unsupported:
  "codecOf ex_package ex_types (Some (TMap 1 1)) Map.empty (ex_state 0)
     = Panic (UnsupportedType (TMap 1 1))"
  by (simp add: codecOf_def lookup_def)

text \<open>
  C3, amended. For a type with no entry in the registry, \<open>codecOf\<close> returns a codec
  when the kind is bool, int, int32, int64, uint, uint32, uint64, float32, float64 or
  string, and for a slice of bytes; it hands an array of bytes, a struct and a pointer
  to their builders, whose result is its result; and it panics with "unsupported type"
  for every other shape: a map, a slice or an array of anything but bytes, and the kinds
  int8, int16, uint8, uint16, uintptr, complex64, complex128, chan, func, interface and
  unsafe pointer.
\<close>

theorem codecOf_dispatch:
  assumes "lookup seen (Some ty) = None"
  shows
   "(Kind ty \<in> {Bool, Int', Int32, Int64, Uint, Uint32, Uint64, Float32, Float64, String}
       \<longrightarrow> (\<exists>c. codecOf pkg tt (Some ty) seen st = Return (Some c, seen) st))
    \<and> (Kind ty = Slice \<and> (\<exists>e. Elem tt ty = Inr e \<and> Kind e = Uint8)
       \<longrightarrow> codecOf pkg tt (Some ty) seen st = Return (Some (bytesCodec pkg), seen) st)
    \<and> (Kind ty = Array \<and> (\<exists>e. Elem tt ty = Inr e \<and> Kind e = Uint8)
       \<longrightarrow> codecOf pkg tt (Some ty) seen st = byteArrayCodecOf pkg ty seen st)
    \<and> (Kind ty = Struct
       \<longrightarrow> codecOf pkg tt (Some ty) seen st = structCodecOf pkg ty seen st)
    \<and> (Kind ty = Ptr
       \<longrightarrow> codecOf pkg tt (Some ty) seen st = pointerCodecOf pkg ty seen st)
    \<and> (Kind ty \<in> {Invalid, Int8, Int16, Uint8, Uint16, Uintptr, Complex64, Complex128,
                    Chan, Func, Interface, Map, UnsafePointer}
        \<or> (Kind ty \<in> {Array, Slice} \<and> (\<exists>e. Elem tt ty = Inr e \<and> Kind e \<noteq> Uint8))
       \<longrightarrow> codecOf pkg tt (Some ty) seen st = Panic (UnsupportedType ty))"
  using assms
  by (auto simp: codecOf_def split: kind.splits)

text \<open>
  Instances of the amended C3: \<open>int32\<close> and \<open>[]uint8\<close> get their global codecs,
  \<open>[]int32\<close> and \<open>int16\<close> are unsupported.
\<close>

theorem codecOf_dispatch_witness:
  "codecOf ex_package ex_types (Some TInt32) Map.empty (ex_state 0)
     = Return (Some 2, Map.empty) (ex_state 0)
   \<and> codecOf ex_package ex_types (Some (TSlice 2)) Map.empty (ex_state 0)
     = Return (Some 10, Map.empty) (ex_state 0)
   \<and> codecOf ex_package ex_types (Some (TSlice 1)) Map.empty (ex_state 0)
     = Panic (UnsupportedType (TSlice 1))
   \<and> codecOf ex_package ex_types (Some TInt16) Map.empty (ex_state 0)
     = Panic (UnsupportedType TInt16)"
proof -
  have l: "lookup (Map.empty :: nat registry) (Some ty) = None" for ty
    by (simp add: lookup_def)
  from codecOf_dispatch [OF l, where ty = TInt32 and pkg = ex_package and tt = ex_types
      and st = "ex_state 0"]
  have "codecOf ex_package ex_types (Some TInt32) Map.empty (ex_state 0)
     = Return (Some 2, Map.empty) (ex_state 0)"
    by (simp add: codecOf_def lookup_def ex_package_def package_spec_def)
  moreover from codecOf_dispatch [OF l, where ty = "TSlice 2" and pkg = ex_package and tt = ex_types
      and st = "ex_state 0"]
  have "codecOf ex_package ex_types (Some (TSlice 2)) Map.empty (ex_state 0)
     = Return (Some 10, Map.empty) (ex_state 0)"
    by (simp add: ex_types_def ex_package_def package_spec_def)
  moreover from codecOf_dispatch [OF l, where ty = "TSlice 1" and pkg = ex_package and tt = ex_types
      and st = "ex_state 0"]
  have "codecOf ex_package ex_types (Some (TSlice 1)) Map.empty (ex_state 0)
     = Panic (UnsupportedType (TSlice 1))"
    by (simp add: ex_types_def)
  moreover from codecOf_dispatch [OF l, where ty = TInt16 and pkg = ex_package and tt = ex_types
      and st = "ex_state 0"]
  have "codecOf ex_package ex_types (Some TInt16) Map.empty (ex_state 0)
     = Panic (UnsupportedType TInt16)"
    by simp
  ultimately show ?thesis by simp
qed

text \<open>
  With an empty buffer \<open>Unmarshal\<close> returns nil before it looks at the target, here
  an \<open>int32\<close> passed by value.
\<close>

theorem Unmarshal_empty_non_pointer:
  "Unmarshal ex_deref ex_package ex_types [] \<lparr>typ' = Some TInt32, ptr' = 7\<rparr> (ex_state 0)
     = Return None (ex_state 0)"
  by (simp add: Unmarshal_def)

text \<open>
  The targets \<open>Unmarshal\<close> does abort on. With a buffer that is not empty, it panics
  for every target that is the nil interface or whose type has no element type (a kind
  other than array, chan, map, pointer and slice): it neither returns nil nor an error.
\<close>

theorem Unmarshal_non_pointer_panics:
  assumes "b \<noteq> []"
    and "typ' v = None \<or> (\<exists>ty. typ' v = Some ty \<and> Kind ty \<notin> {Array, Chan, Map, Ptr, Slice})"
  shows "\<exists>p. Unmarshal deref pkg tt b v st = Panic p"
  using assms(2)
proof
  assume "typ' v = None"
  with assms(1) show ?thesis by (simp add: Unmarshal_def inspect_def)
next
  assume "\<exists>ty. typ' v = Some ty \<and> Kind ty \<notin> {Array, Chan, Map, Ptr, Slice}"
  then obtain ty where ty: "typ' v = Some ty" "Kind ty \<notin> {Array, Chan, Map, Ptr, Slice}"
    by blast
  then have "Elem tt ty = Inl (ElemOfInvalidType ty)" by (cases ty) simp_all
  with assms(1) ty show ?thesis by (simp add: Unmarshal_def inspect_def)
qed

text \<open>An instance: a buffer of one byte and an \<open>int32\<close> passed by value.\<close>

theorem Unmarshal_non_pointer_panics_witness:
  "Unmarshal ex_deref ex_package ex_types [1] \<lparr>typ' = Some TInt32, ptr' = 7\<rparr> (ex_state 0)
     = Panic (ElemOfInvalidType TInt32)"
proof -
  from Unmarshal_non_pointer_panics
    [where b = "[1]" and v = "\<lparr>typ' = Some TInt32, ptr' = 7\<rparr>" and deref = ex_deref
      and pkg = ex_package and tt = ex_types and st = "ex_state 0"]
  obtain p where
    "Unmarshal ex_deref ex_package ex_types [1] \<lparr>typ' = Some TInt32, ptr' = 7\<rparr> (ex_state 0)
       = Panic p"
    by auto
  then show ?thesis by (simp add: Unmarshal_def inspect_def)
qed

text \<open>
  C6 says that \<open>Unmarshal\<close> aborts with a fatal error for every target that is not a
  pointer, whatever the buffer. proto.go does not check that the target is a pointer:
  it takes the element type of the target's type (\<open>t.Elem()\<close>, under the comment
  "Unmarshal must be passed a pointer"), and an array, a channel, a map and a slice have
  an element type too. Here an array of four \<open>int32\<close> is passed by value with a buffer
  of one byte: \<open>Unmarshal\<close> decodes one \<open>int32\<close> through the data word of the
  interface and returns nil.
\<close>

theorem Unmarshal_array_by_value:
  "Unmarshal ex_deref ex_package ex_types [5] \<lparr>typ' = Some (TArray 4 TInt32), ptr' = 7\<rparr>
      (ex_state 1)
     = Return None ((ex_cached 1)\<lparr>memory := (\<lambda>p. 1)(7 := 5)\<rparr>)"
  by (simp add: Unmarshal_def inspect_def pointer_def ex_int32_codec ex_decode_5)

text \<open>
  C4. For a buffer that is not empty and a pointer target whose element type has a
  codec, let \<open>decode\<close> return the count \<open>n\<close> and the error \<open>err\<close>. When \<open>n\<close> is less
  than the length of the buffer \<open>Unmarshal\<close> returns an error, the short-read error of
  its own when \<open>decode\<close> returned none; and it returns nil exactly when \<open>decode\<close>
  returned no error and \<open>n\<close> is at least the length of the buffer.
\<close>

theorem Unmarshal_strict:
  assumes "b \<noteq> []"
    and "typ' v = Some (TPtr e)"
    and "cachedCodecOf pkg tt (Some (tt e)) st = Return (Some c) st1"
    and "decode_fn (deref st1 c) b (ptr' v) noflags st1 = ((n, err), st2)"
  shows "(n < int (length b) \<longrightarrow> (\<exists>x. Unmarshal deref pkg tt b v st = Return (Some x) st2))
    \<and> (n < int (length b) \<and> err = None \<longrightarrow>
         Unmarshal deref pkg tt b v st
           = Return (Some (UnmarshalShortRead (typ' v) n (length b))) st2)
    \<and> (Unmarshal deref pkg tt b v st = Return None st2) = (err = None \<and> int (length b) \<le> n)"
  using assms
  by (auto simp: Unmarshal_def inspect_def pointer_def split: option.splits)

text \<open>
  Instances of C4, into a pointer to \<open>int32\<close>: the varint of 300 followed by one more
  byte is refused with the short-read error, and the varint of 300 alone is accepted.
\<close>

theorem Unmarshal_strict_witness:
  "Unmarshal ex_deref ex_package ex_types [172, 2, 0] \<lparr>typ' = Some (TPtr 1), ptr' = 7\<rparr>
          (ex_state 0)
        = Return (Some (UnmarshalShortRead (Some (TPtr 1)) 2 3))
            ((ex_cached 0)\<lparr>memory := (\<lambda>p. 0)(7 := 300)\<rparr>)
   \<and> Unmarshal ex_deref ex_package ex_types [172, 2] \<lparr>typ' = Some (TPtr 1), ptr' = 7\<rparr>
          (ex_state 0)
        = Return None ((ex_cached 0)\<lparr>memory := (\<lambda>p. 0)(7 := 300)\<rparr>)"
proof -
  let ?v = "\<lparr>typ' = Some (TPtr 1), ptr' = 7\<rparr>"
  let ?st2 = "(ex_cached 0)\<lparr>memory := (\<lambda>p. 0)(7 := 300)\<rparr>"
  have c: "cachedCodecOf ex_package ex_types (Some (ex_types 1)) (ex_state 0)
      = Return (Some 2) (ex_cached 0)"
    using ex_int32_codec [of 0] by (simp add: ex_types_def)
  have d3: "decode_fn (ex_deref (ex_cached 0) 2) [172, 2, 0] (ptr' ?v) noflags (ex_cached 0)
      = ((2, None), ?st2)"
    by (simp add: ex_decode)
  have d2: "decode_fn (ex_deref (ex_cached 0) 2) [172, 2] (ptr' ?v) noflags (ex_cached 0)
      = ((2, None), ?st2)"
    by (simp add: ex_decode)
  note u = Unmarshal_strict [where v = ?v and e = 1 and pkg = ex_package and tt = ex_types
      and st = "ex_state 0" and c = 2 and ?st1.0 = "ex_cached 0" and deref = ex_deref
      and n = 2 and err = None and ?st2.0 = ?st2]
  from u [where b = "[172, 2, 0]"] c d3
  have "Unmarshal ex_deref ex_package ex_types [172, 2, 0] ?v (ex_state 0)
      = Return (Some (UnmarshalShortRead (Some (TPtr 1)) 2 3)) ?st2"
    by (simp add: numeral_3_eq_3)
  moreover from u [where b = "[172, 2]"] c d2
  have "Unmarshal ex_deref ex_package ex_types [172, 2] ?v (ex_state 0) = Return None ?st2"
    by simp
  ultimately show ?thesis by simp
qed

text \<open>What a \<open>Marshal\<close> that returns bytes has done.\<close>

lemma Marshal_returns_bytes:
  assumes "Marshal deref pkg tt v st = Return (Inr b) st1"
  shows "\<exists>c ws k. cachedCodecOf pkg tt (typ' v) st = Return (Some c) st1
     \<and> 0 \<le> size_fn (deref st1 c) (ptr' v) inline st1
     \<and> size_fn (deref st1 c) (ptr' v) inline st1 \<le> maxAlloc
     \<and> encode_fn (deref st1 c)
          (replicate (nat (size_fn (deref st1 c) (ptr' v) inline st1)) 0)
          (ptr' v) inline st1 = (ws, k, None)
     \<and> b = write_into (replicate (nat (size_fn (deref st1 c) (ptr' v) inline st1)) 0) ws"
  using assms
  by (auto simp: Marshal_def inspect_def pointer_def Let_def
      split: outcome.splits option.splits if_splits prod.splits)

text \<open>
  C2. When \<open>Marshal v\<close> returns the bytes \<open>b\<close>, \<open>Size v\<close> returns the length of \<open>b\<close>,
  called in the state before \<open>Marshal\<close> or in the state it leaves: \<open>Marshal\<close> has
  allocated that many bytes, handed them all to \<open>encode\<close>, and returns them as
  \<open>encode\<close> left them. That much holds on proto.go for every codec. With the size and
  encode functions of the codecs as the spec describes them, \<open>encode\<close> has stored
  exactly these bytes and reported their count, so the bytes are filled completely; and
  \<open>Marshal\<close> returns bytes for every value whose type has a codec and whose size
  \<open>make\<close> can allocate.
\<close>

theorem Marshal_length_is_Size:
  fixes st' :: "'z vstate_scheme"
  shows
  "(Marshal deref pkg tt v st = Return (Inr b) st1 \<longrightarrow>
      Size deref pkg tt v st = Return (int (length b)) st1
      \<and> Size deref pkg tt v st1 = Return (int (length b)) st1
      \<and> (\<exists>c ws k. cachedCodecOf pkg tt (typ' v) st = Return (Some c) st1
           \<and> encode_fn (deref st1 c) (replicate (length b) 0) (ptr' v) inline st1 = (ws, k, None)
           \<and> b = write_into (replicate (length b) 0) ws))
   \<and> (Marshal (codec_spec L dec) pkg' tt' v' st' = Return (Inr b') st1' \<longrightarrow>
        (\<exists>c. cachedCodecOf pkg' tt' (typ' v') st' = Return (Some c) st1'
           \<and> encode_fn (codec_spec L dec st1' c) (replicate (length b') 0) (ptr' v') inline st1'
               = (b', int (length b'), None)))
   \<and> (cachedCodecOf pkg' tt' (typ' v') st' = Return (Some c') st1'
        \<and> size_fn (codec_spec L dec st1' c') (ptr' v') inline st1' \<le> maxAlloc \<longrightarrow>
        (\<exists>b. Marshal (codec_spec L dec) pkg' tt' v' st' = Return (Inr b) st1'))"
proof (intro conjI impI)
  assume m: "Marshal deref pkg tt v st = Return (Inr b) st1"
  from Marshal_returns_bytes [OF m] obtain c ws k where
    c: "cachedCodecOf pkg tt (typ' v) st = Return (Some c) st1"
    and n0: "0 \<le> size_fn (deref st1 c) (ptr' v) inline st1"
    and enc: "encode_fn (deref st1 c)
          (replicate (nat (size_fn (deref st1 c) (ptr' v) inline st1)) 0)
          (ptr' v) inline st1 = (ws, k, None)"
    and b: "b = write_into (replicate (nat (size_fn (deref st1 c) (ptr' v) inline st1)) 0) ws"
    by blast
  from b have len: "length b = nat (size_fn (deref st1 c) (ptr' v) inline st1)"
    by (simp add: length_write_into)
  with n0 have nb: "size_fn (deref st1 c) (ptr' v) inline st1 = int (length b)" by simp
  show "Size deref pkg tt v st = Return (int (length b)) st1"
    using c nb by (simp add: Size_def inspect_def pointer_def)
  from c have "codecCache st1 = (codecCache st)(typ' v \<mapsto> Some c)" by (rule cachedCodecOf_cache)
  then have "lookup (codecCache st1) (typ' v) = Some c" by (simp add: lookup_def)
  then have "cachedCodecOf pkg tt (typ' v) st1 = Return (Some c) st1" by (rule cachedCodecOf_hit)
  then show "Size deref pkg tt v st1 = Return (int (length b)) st1"
    using nb by (simp add: Size_def inspect_def pointer_def)
  from enc b len
  have "encode_fn (deref st1 c) (replicate (length b) 0) (ptr' v) inline st1 = (ws, k, None)"
    "b = write_into (replicate (length b) 0) ws" by simp_all
  with c show "\<exists>c ws k. cachedCodecOf pkg tt (typ' v) st = Return (Some c) st1
      \<and> encode_fn (deref st1 c) (replicate (length b) 0) (ptr' v) inline st1 = (ws, k, None)
      \<and> b = write_into (replicate (length b) 0) ws"
    by blast
next
  assume m: "Marshal (codec_spec L dec) pkg' tt' v' st' = Return (Inr b') st1'"
  from Marshal_returns_bytes [OF m] obtain c where
    c: "cachedCodecOf pkg' tt' (typ' v') st' = Return (Some c) st1'"
    and le: "size_fn (codec_spec L dec st1' c) (ptr' v') inline st1' \<le> maxAlloc"
    by blast
  from Marshal_codec_spec [OF c le] m
  have b': "b' = encode_val L (codecs st1') c (valueAt st1' (ptr' v')) inline" by simp
  then have "length b' = size_val L (codecs st1') c (valueAt st1' (ptr' v')) inline"
    by (simp add: length_encode_val)
  with b' have "encode_fn (codec_spec L dec st1' c) (replicate (length b') 0) (ptr' v') inline st1'
      = (b', int (length b'), None)"
    by (simp add: encode_codec_spec)
  with c show "\<exists>c. cachedCodecOf pkg' tt' (typ' v') st' = Return (Some c) st1'
      \<and> encode_fn (codec_spec L dec st1' c) (replicate (length b') 0) (ptr' v') inline st1'
          = (b', int (length b'), None)"
    by blast
next
  assume "cachedCodecOf pkg' tt' (typ' v') st' = Return (Some c') st1'
      \<and> size_fn (codec_spec L dec st1' c') (ptr' v') inline st1' \<le> maxAlloc"
  then show "\<exists>b. Marshal (codec_spec L dec) pkg' tt' v' st' = Return (Inr b) st1'"
    by (auto simp: Marshal_codec_spec)
qed

text \<open>
  An instance of C2: a \<open>Node\<close> with the value 150 and no next node marshals to the tag
  of field 1 and the varint of 150, three bytes that \<open>encode\<close> has stored and counted,
  and its size is 3.
\<close>

theorem Marshal_length_is_Size_witness:
  "(case Marshal (codec_spec ex_layout ex_decode_none) ex_vpackage ex_types
           \<lparr>typ' = Some Node, ptr' = 7\<rparr> ex_vstate of
      Return (Inr b) s \<Rightarrow>
        b = [8, 150, 1]
        \<and> Size (codec_spec ex_layout ex_decode_none) ex_vpackage ex_types
             \<lparr>typ' = Some Node, ptr' = 7\<rparr> ex_vstate = Return 3 s
        \<and> encode_fn (codec_spec ex_layout ex_decode_none s 11) [0, 0, 0] 7 inline s
             = ([8, 150, 1], 3, None)
    | _ \<Rightarrow> False)"
proof -
  let ?d = "codec_spec ex_layout ex_decode_none"
  let ?v = "\<lparr>typ' = Some Node, ptr' = 7\<rparr>"
  from ex_Node_vcodec obtain st1 where
    c: "cachedCodecOf ex_vpackage ex_types (Some Node) ex_vstate = Return (Some 11) st1"
    and h: "codecs st1 11 = Some (StructCodec [Some 2, Some 12])" "codecs st1 2 = None"
    and m: "valueAt st1 = (\<lambda>p. VStruct [VNum 150, VPtr None])"
    by blast
  have e: "encode_val ex_layout (codecs st1) 11 (valueAt st1 7) inline = [8, 150, 1]"
    by (simp add: h m ex_layout_def ex_flags ex_tag child_flags_def encode_primitive_def
        varint_bytes_numeral varint_bytes_1)
  then have "size_fn (?d st1 11) 7 inline st1 = 3"
    by (simp add: codec_spec_def length_encode_val [symmetric])
  then have le: "size_fn (?d st1 11) (ptr' ?v) inline st1 \<le> maxAlloc"
    by (simp add: maxAlloc_def)
  from c have c': "cachedCodecOf ex_vpackage ex_types (typ' ?v) ex_vstate = Return (Some 11) st1"
    by simp
  have r: "Marshal ?d ex_vpackage ex_types ?v ex_vstate = Return (Inr [8, 150, 1]) st1"
    using Marshal_codec_spec [OF c' le] e by simp
  note t = Marshal_length_is_Size [where deref = ?d and pkg = ex_vpackage and tt = ex_types
      and v = ?v and st = ex_vstate and b = "[8, 150, 1]" and ?st1.0 = st1
      and L = ex_layout and dec = ex_decode_none and pkg' = ex_vpackage and tt' = ex_types
      and v' = ?v and st' = ex_vstate and b' = "[8, 150, 1]" and ?st1'.0 = st1]
  from t r have s: "Size ?d ex_vpackage ex_types ?v ex_vstate = Return 3 st1"
    by simp
  from t r obtain c2 where
    "cachedCodecOf ex_vpackage ex_types (typ' ?v) ex_vstate = Return (Some c2) st1"
    and enc: "encode_fn (?d st1 c2) (replicate (length [8, 150, 1 :: byte]) 0) (ptr' ?v) inline st1
      = ([8, 150, 1], int (length [8, 150, 1 :: byte]), None)"
    by blast
  with c' have "c2 = 11" by simp
  with enc have "encode_fn (?d st1 11) [0, 0, 0] 7 inline st1 = ([8, 150, 1], 3, None)"
    by simp
  with s r show ?thesis by simp
qed

text \<open>
  C8. When the registry of the build session holds a codec for a type, \<open>codecOf\<close>
  returns that codec at once, with the registry and the state unchanged, whatever the
  builders of the package are: it does not call them. With the builders that register a
  placeholder before they recurse, the build of a type therefore terminates, also when
  the type refers to itself: in a finite set \<open>U\<close> of types that holds the dependents of
  each of its members, a build that starts from a registry \<open>seen0\<close> needs a chain of at
  most one call more than \<open>U\<close> has unregistered types, and \<open>cachedCodecOf\<close> returns
  or panics.
\<close>

theorem codecOf_registered_build_terminates:
  fixes st0 :: "'z bstate_scheme"
  shows "(lookup seen t = Some c \<longrightarrow> codecOf pkg tt t seen st = Return (Some c, seen) st)
    \<and> (finite U \<and> (\<forall>u\<in>U. set (dependents tt' u) \<subseteq> U) \<and> ty \<in> U \<longrightarrow>
         (card (U - registered seen0) < n \<longrightarrow> build n tt' (Some ty) seen0 st0 \<noteq> Unfinished)
         \<and> (card U \<le> n \<longrightarrow>
              cachedCodecOf (package_spec tt' (build n tt')) tt' (Some ty) st0 \<noteq> Unfinished))"
proof (intro conjI impI)
  assume "lookup seen t = Some c"
  then show "codecOf pkg tt t seen st = Return (Some c, seen) st" by (rule codecOf_seen)
next
  assume U: "finite U \<and> (\<forall>u\<in>U. set (dependents tt' u) \<subseteq> U) \<and> ty \<in> U"
    and "card (U - registered seen0) < n"
  then have "finishes (build n tt') (Some ty) seen0 st0"
    by (intro build_finishes [of U]) simp_all
  then show "build n tt' (Some ty) seen0 st0 \<noteq> Unfinished" by (simp add: finishes_def)
next
  assume U: "finite U \<and> (\<forall>u\<in>U. set (dependents tt' u) \<subseteq> U) \<and> ty \<in> U"
    and n: "card U \<le> n"
  have "registered (Map.empty :: nat registry) = {}" by (simp add: registered_def lookup_def)
  with n have "card (U - registered (Map.empty :: nat registry)) < Suc n" by simp
  with U have "finishes (build (Suc n) tt') (Some ty) Map.empty st0"
    by (intro build_finishes [of U]) simp_all
  then have "codecOf (package_spec tt' (build n tt')) tt' (Some ty) Map.empty st0 \<noteq> Unfinished"
    by (simp add: finishes_def)
  then show "cachedCodecOf (package_spec tt' (build n tt')) tt' (Some ty) st0 \<noteq> Unfinished"
    by (cases "lookup (codecCache st0) (Some ty)")
      (auto simp: cachedCodecOf_hit cachedCodecOf_miss split: outcome.splits)
qed

text \<open>
  Instances of C8 on \<open>type Node struct { Value int32; Next *Node }\<close>: its build
  finishes, from \<open>codecOf\<close> and from \<open>cachedCodecOf\<close>, and \<open>codecOf\<close> returns the
  placeholder in cell 11 when the registry holds it for \<open>Node\<close>.
\<close>

theorem codecOf_registered_build_terminates_witness:
  "build 4 ex_types (Some Node) Map.empty (ex_state 0) \<noteq> Unfinished
   \<and> cachedCodecOf ex_package ex_types (Some Node) (ex_state 0) \<noteq> Unfinished
   \<and> codecOf ex_package ex_types (Some Node) [Some Node \<mapsto> Some 11] (ex_state 0)
       = Return (Some 11, [Some Node \<mapsto> Some 11]) (ex_state 0)"
proof -
  let ?U = "{Node, TInt32, TPtr 0}"
  have U: "finite ?U \<and> (\<forall>u\<in>?U. set (dependents ex_types u) \<subseteq> ?U) \<and> Node \<in> ?U"
    by (simp add: Node_def ex_types_def)
  have card: "card ?U = 3" by (simp add: Node_def)
  have r: "registered (Map.empty :: nat registry) = {}" by (simp add: registered_def lookup_def)
  have l: "lookup [Some Node \<mapsto> Some (11 :: nat)] (Some Node) = Some 11" by (simp add: lookup_def)
  note t = codecOf_registered_build_terminates
    [where U = ?U and tt' = ex_types and ty = Node and ?seen0.0 = Map.empty
      and ?st0.0 = "ex_state 0" and seen = "[Some Node \<mapsto> Some 11]" and t = "Some Node"
      and c = 11 and pkg = ex_package and tt = ex_types and st = "ex_state 0"]
  have a: "codecOf ex_package ex_types (Some Node) [Some Node \<mapsto> Some 11] (ex_state 0)
       = Return (Some 11, [Some Node \<mapsto> Some 11]) (ex_state 0)"
    using t [THEN conjunct1] l by blast
  have b: "build 4 ex_types (Some Node) Map.empty (ex_state 0) \<noteq> Unfinished"
    using t [where n = 4, THEN conjunct2, rule_format, OF U, THEN conjunct1] card r by simp
  have c: "cachedCodecOf ex_package ex_types (Some Node) (ex_state 0) \<noteq> Unfinished"
    using t [where n = 3, THEN conjunct2, rule_format, OF U, THEN conjunct2] card
    by (simp add: ex_package_def)
  from a b c show ?thesis by blast
qed

end
